theory Spec2Isabelle
  imports Complex_Main "HOL-Library.AList"
begin

section \<open>Order types and records (ordertypes.py, order.py)\<close>

datatype OrderType = GOOD_TILL_CANCEL | FILL_AND_KILL | FILL_OR_KILL | GOOD_FOR_DAY | MARKET

datatype Side = BUY | SELL

text \<open>
  Prices are Python floats that are only ever compared and used as dictionary keys, never
  computed with; they are modelled as reals. The \<open>nan\<close> that \<open>create_market_order\<close>
  stores in a Market order is never read: \<open>add_order\<close> overwrites it or returns first.
  Quantities are Python's unbounded integers.
\<close>

datatype TradeInfo = TradeInfo (ti_order_id: int) (ti_price: real) (ti_quantity: int)

datatype Trade = Trade (bid_trade: TradeInfo) (ask_trade: TradeInfo)

record Order =
  order_type :: OrderType
  order_id :: int
  side :: Side
  price :: real
  initial_quantity :: int
  remaining_quantity :: int

datatype OrderModify =
  OrderModify (m_order_id: int) (m_side: Side) (m_price: real) (m_quantity: int)

text \<open>
  The exceptions of the source: \<open>FillError\<close> is the ValueError of \<open>Order.fill\<close>,
  \<open>ConvertError\<close> the ValueError of \<open>Order.to_good_till_cancel\<close>, \<open>RemoveError\<close> the
  ValueError of \<open>list.remove\<close> on an absent element, \<open>KeyError\<close> a missing dictionary key,
  \<open>IndexError\<close> a \<open>pop\<close> from an empty list, \<open>RuntimeError\<close> the release of a lock that is
  not held.
\<close>

datatype error = FillError | ConvertError | RemoveError | KeyError | IndexError | RuntimeError

text \<open>
  What a call does: it returns, it raises, or it blocks for ever on the book's lock.
  The lock is a \<open>threading.Lock\<close>, which is not reentrant: a thread that acquires it while
  holding it never proceeds.
\<close>

datatype 'a outcome = Returns 'a | Raises error | Deadlock

fun bind_outcome :: "'a outcome \<Rightarrow> ('a \<Rightarrow> 'b outcome) \<Rightarrow> 'b outcome" where
  "bind_outcome (Returns x) f = f x"
| "bind_outcome (Raises e) f = Raises e"
| "bind_outcome Deadlock f = Deadlock"

definition new_order :: "OrderType \<Rightarrow> int \<Rightarrow> Side \<Rightarrow> real \<Rightarrow> int \<Rightarrow> Order" where
  "new_order ty oid sd p q =
     \<lparr>order_type = ty, order_id = oid, side = sd, price = p,
      initial_quantity = q, remaining_quantity = q\<rparr>"

definition is_filled :: "Order \<Rightarrow> bool" where
  "is_filled ord \<longleftrightarrow> remaining_quantity ord = 0"

definition fill :: "Order \<Rightarrow> int \<Rightarrow> error + Order" where
  "fill ord q =
     (if q > remaining_quantity ord then Inl FillError
      else Inr (ord\<lparr>remaining_quantity := remaining_quantity ord - q\<rparr>))"

definition to_good_till_cancel :: "Order \<Rightarrow> real \<Rightarrow> error + Order" where
  "to_good_till_cancel ord p =
     (if order_type ord \<noteq> MARKET then Inl ConvertError
      else Inr (ord\<lparr>price := p, order_type := GOOD_TILL_CANCEL\<rparr>))"

definition to_order :: "OrderModify \<Rightarrow> OrderType \<Rightarrow> Order" where
  "to_order m ty = new_order ty (m_order_id m) (m_side m) (m_price m) (m_quantity m)"

section \<open>The book (orderbook.py)\<close>

text \<open>
  A Python dictionary keeps its keys in insertion order, so each dictionary is an
  association list with \<open>AList.update\<close> for \<open>d[k] = v\<close> (in place when \<open>k\<close> is present, at
  the end otherwise) and \<open>AList.delete\<close> for \<open>del d[k]\<close>.

  An order is one mutable object, referenced from its queue and from the registry
  \<open>orders\<close>. Objects are identified by their \<open>order_id\<close> (admission refuses a registered
  identifier), and \<open>set_head\<close> below makes a mutation visible through both references.
  The registry's second component, the reference to the containing list, is the queue
  found at the order's price in the map of the order's side.

  \<open>lock\<close> is True while the book's lock is held.
\<close>

record level =
  quantity :: int
  count :: int

record Orderbook =
  data :: "(real \<times> level) list"
  bids :: "(real \<times> Order list) list"
  asks :: "(real \<times> Order list) list"
  orders :: "(int \<times> Order) list"
  lock :: bool

definition init :: Orderbook where
  "init = \<lparr>data = [], bids = [], asks = [], orders = [], lock = False\<rparr>"

definition keys :: "('k \<times> 'v) list \<Rightarrow> 'k list" where
  "keys d = map fst d"

text \<open>\<open>self.data[price]\<close> on the defaultdict: a missing key reads as a fresh zero entry.\<close>

definition level_at :: "(real \<times> level) list \<Rightarrow> real \<Rightarrow> level" where
  "level_at d p = (case map_of d p of None \<Rightarrow> \<lparr>quantity = 0, count = 0\<rparr> | Some l \<Rightarrow> l)"

definition update_level_data :: "Orderbook \<Rightarrow> real \<Rightarrow> int \<Rightarrow> bool \<Rightarrow> bool \<Rightarrow> Orderbook" where
  "update_level_data b p q is_add is_match =
     (let l = level_at (data b) p;
          l' = (if is_add then \<lparr>quantity = quantity l + q, count = count l + 1\<rparr>
                else if is_match then \<lparr>quantity = quantity l - q, count = count l\<rparr>
                else \<lparr>quantity = quantity l - q, count = count l - 1\<rparr>)
      in if count l' = 0 then b\<lparr>data := AList.delete p (data b)\<rparr>
         else b\<lparr>data := AList.update p l' (data b)\<rparr>)"

definition can_match :: "Orderbook \<Rightarrow> Side \<Rightarrow> real \<Rightarrow> bool" where
  "can_match b sd p =
     (if sd = BUY then asks b \<noteq> [] \<and> p \<ge> Min (set (keys (asks b)))
      else bids b \<noteq> [] \<and> p \<le> Max (set (keys (bids b))))"

text \<open>The \<open>for\<close> loop of \<open>_can_fully_fill\<close> over the sorted ledger prices.\<close>

fun fill_walk :: "(real \<times> level) list \<Rightarrow> Side \<Rightarrow> real \<Rightarrow> int \<Rightarrow> real list \<Rightarrow> bool" where
  "fill_walk d sd p remaining [] = False"
| "fill_walk d sd p remaining (level_price # rest) =
     (if (sd = BUY \<and> level_price > p) \<or> (sd = SELL \<and> level_price < p)
      then fill_walk d sd p remaining rest
      else let level_quantity = quantity (level_at d level_price)
           in if remaining \<le> level_quantity then True
              else fill_walk d sd p (remaining - level_quantity) rest)"

definition can_fully_fill :: "Orderbook \<Rightarrow> Side \<Rightarrow> real \<Rightarrow> int \<Rightarrow> bool" where
  "can_fully_fill b sd p q =
     (if \<not> can_match b sd p then False
      else let relevant_prices =
                 (if sd = BUY then rev (sort (keys (data b))) else sort (keys (data b)))
           in fill_walk (data b) sd p q relevant_prices)"

definition side_map :: "Orderbook \<Rightarrow> Side \<Rightarrow> (real \<times> Order list) list" where
  "side_map b sd = (if sd = BUY then bids b else asks b)"

definition set_side_map :: "Side \<Rightarrow> (real \<times> Order list) list \<Rightarrow> Orderbook \<Rightarrow> Orderbook" where
  "set_side_map sd m b = (if sd = BUY then b\<lparr>bids := m\<rparr> else b\<lparr>asks := m\<rparr>)"

text \<open>\<open>list.remove(order)\<close>: the first element that is the object, if there is one.\<close>

fun remove_order :: "int \<Rightarrow> Order list \<Rightarrow> Order list option" where
  "remove_order oid [] = None"
| "remove_order oid (x # xs) =
     (if order_id x = oid then Some xs
      else map_option (\<lambda>ys. x # ys) (remove_order oid xs))"

text \<open>
  A mutation of the order object at the head of the queue at price \<open>p\<close> of side \<open>sd\<close>:
  the queue and the registry entry of its identifier hold the same object, so both see it.
\<close>

definition set_head :: "Side \<Rightarrow> real \<Rightarrow> Order \<Rightarrow> Orderbook \<Rightarrow> Orderbook" where
  "set_head sd p ord b =
     (case map_of (side_map b sd) p of
        Some (x # xs) \<Rightarrow>
          (set_side_map sd (AList.update p (ord # xs) (side_map b sd)) b)
            \<lparr>orders := map (\<lambda>(k, y). if k = order_id ord then (k, ord) else (k, y)) (orders b)\<rparr>
      | _ \<Rightarrow> b)"

text \<open>
  \<open>with self.lock:\<close> acquires the lock on entry and releases it on every exit. Entry with
  the lock held blocks for ever; \<open>release\<close> is the exit of the block.
\<close>

definition acquire :: "Orderbook \<Rightarrow> Orderbook" where
  "acquire b = b\<lparr>lock := True\<rparr>"

definition release :: "Orderbook \<Rightarrow> Orderbook outcome" where
  "release b = (if lock b then Returns (b\<lparr>lock := False\<rparr>) else Raises RuntimeError)"

definition cancel_order :: "Orderbook \<Rightarrow> int \<Rightarrow> Orderbook outcome" where
  "cancel_order b oid =
     (if lock b then Deadlock
      else let b0 = acquire b
        in case map_of (orders b0) oid of
          None \<Rightarrow> release b0
        | Some ord \<Rightarrow>
            (let b1 = b0\<lparr>orders := AList.delete oid (orders b0)\<rparr>
             in case map_of (side_map b1 (side ord)) (price ord) of
               None \<Rightarrow> Raises KeyError
             | Some order_list \<Rightarrow>
                 (case remove_order oid order_list of
                    None \<Rightarrow> Raises RemoveError
                  | Some order_list' \<Rightarrow>
                      (let orders_dict =
                             AList.update (price ord) order_list' (side_map b1 (side ord));
                           orders_dict' =
                             (if order_list' = [] then AList.delete (price ord) orders_dict
                              else orders_dict);
                           b2 = set_side_map (side ord) orders_dict' b1
                       in release (update_level_data b2 (price ord) (remaining_quantity ord)
                                     False False)))))"

subsection \<open>The matching loop\<close>

text \<open>
  One pass through the body of the inner \<open>while\<close> of \<open>_match_orders\<close>, with \<open>bid\<close> and
  \<open>ask\<close> the heads of the queues at \<open>best_bid_price\<close> and \<open>best_ask_price\<close>. The body
  ends the whole function (\<open>Exit\<close>: a \<open>return\<close>, an exception, or a call that blocks),
  leaves the inner loop (\<open>LeaveInner\<close>: a \<open>break\<close>), or falls through to the next test of
  the inner loop (\<open>NextInner\<close>).
\<close>

datatype step =
    Exit "(Trade list \<times> Orderbook) outcome"
  | LeaveInner "Trade list" Orderbook
  | NextInner "Trade list" Orderbook

text \<open>\<open>self.bids[p].pop(0); del self.orders[oid]\<close> (and the same on the ask side).\<close>

definition pop_filled :: "Side \<Rightarrow> real \<Rightarrow> int \<Rightarrow> Orderbook \<Rightarrow> Orderbook outcome" where
  "pop_filled sd p oid b =
     (case map_of (side_map b sd) p of
        None \<Rightarrow> Raises KeyError
      | Some [] \<Rightarrow> Raises IndexError
      | Some (x # xs) \<Rightarrow>
          (let b1 = set_side_map sd (AList.update p xs (side_map b sd)) b
           in if oid \<in> set (keys (orders b1))
              then Returns (b1\<lparr>orders := AList.delete oid (orders b1)\<rparr>)
              else Raises KeyError))"

text \<open>
  The first half of the body: both heads are filled by the matched quantity, the trade is
  appended, and the ledger entries at the two orders' prices lose the quantity.
\<close>

definition fill_heads ::
  "real \<Rightarrow> real \<Rightarrow> Order \<Rightarrow> Order \<Rightarrow> Trade list \<Rightarrow> Orderbook
     \<Rightarrow> error + (Order \<times> Order \<times> Trade list \<times> Orderbook)" where
  "fill_heads best_bid_price best_ask_price bid ask trades b =
     (let match_quantity = min (remaining_quantity bid) (remaining_quantity ask)
      in case fill bid match_quantity of
        Inl e \<Rightarrow> Inl e
      | Inr bid' \<Rightarrow>
         (case fill ask match_quantity of
            Inl e \<Rightarrow> Inl e
          | Inr ask' \<Rightarrow>
             (let b1 = set_head SELL best_ask_price ask' (set_head BUY best_bid_price bid' b);
                  trades' = trades @
                    [Trade (TradeInfo (order_id bid') (price bid') match_quantity)
                           (TradeInfo (order_id ask') (price ask') match_quantity)];
                  b2 = update_level_data b1 (price bid') match_quantity False True;
                  b3 = update_level_data b2 (price ask') match_quantity False True
              in Inr (bid', ask', trades', b3))))"

text \<open>
  The fill-and-kill branch: \<open>cancel_order\<close> for each head that is not filled, then
  \<open>return trades\<close>.
\<close>

definition kill_residuals ::
  "Order \<Rightarrow> Order \<Rightarrow> Trade list \<Rightarrow> Orderbook \<Rightarrow> (Trade list \<times> Orderbook) outcome" where
  "kill_residuals bid ask trades b =
     bind_outcome (if \<not> is_filled bid then cancel_order b (order_id bid) else Returns b)
       (\<lambda>b1. bind_outcome
          (if \<not> is_filled ask then cancel_order b1 (order_id ask) else Returns b1)
          (\<lambda>b2. Returns (trades, b2)))"

text \<open>The two \<open>if ....is_filled():\<close> blocks that remove a filled head.\<close>

definition drop_filled ::
  "real \<Rightarrow> real \<Rightarrow> Order \<Rightarrow> Order \<Rightarrow> Orderbook \<Rightarrow> Orderbook outcome" where
  "drop_filled best_bid_price best_ask_price bid ask b =
     bind_outcome
       (if is_filled bid then pop_filled BUY best_bid_price (order_id bid) b else Returns b)
       (\<lambda>b1. if is_filled ask then pop_filled SELL best_ask_price (order_id ask) b1
             else Returns b1)"

text \<open>
  The two \<open>if not ...: del ...; break\<close> blocks that end the body: the ask level is looked
  at only when the bid level is not empty.
\<close>

definition drop_levels :: "real \<Rightarrow> real \<Rightarrow> Trade list \<Rightarrow> Orderbook \<Rightarrow> step" where
  "drop_levels best_bid_price best_ask_price trades b =
     (case map_of (bids b) best_bid_price of
        None \<Rightarrow> Exit (Raises KeyError)
      | Some [] \<Rightarrow> LeaveInner trades (b\<lparr>bids := AList.delete best_bid_price (bids b)\<rparr>)
      | Some (x # xs) \<Rightarrow>
         (case map_of (asks b) best_ask_price of
            None \<Rightarrow> Exit (Raises KeyError)
          | Some [] \<Rightarrow> LeaveInner trades (b\<lparr>asks := AList.delete best_ask_price (asks b)\<rparr>)
          | Some (y # ys) \<Rightarrow> NextInner trades b))"

definition match_step ::
  "real \<Rightarrow> real \<Rightarrow> Order \<Rightarrow> Order \<Rightarrow> Trade list \<Rightarrow> Orderbook \<Rightarrow> step" where
  "match_step best_bid_price best_ask_price bid ask trades b =
     (case fill_heads best_bid_price best_ask_price bid ask trades b of
        Inl e \<Rightarrow> Exit (Raises e)
      | Inr (bid', ask', trades', b1) \<Rightarrow>
          if order_type bid' = FILL_AND_KILL \<or> order_type ask' = FILL_AND_KILL
          then Exit (kill_residuals bid' ask' trades' b1)
          else (case drop_filled best_bid_price best_ask_price bid' ask' b1 of
                  Raises e \<Rightarrow> Exit (Raises e)
                | Deadlock \<Rightarrow> Exit Deadlock
                | Returns b2 \<Rightarrow> drop_levels best_bid_price best_ask_price trades' b2))"

text \<open>
  The two nested \<open>while\<close> loops. \<open>Outer\<close> is the test of the outer loop, \<open>Inner B A\<close> the
  test of the inner loop at the prices \<open>B\<close> and \<open>A\<close> chosen by the outer one. The loops
  need not end, so the function is partial: \<open>None\<close> is a run that never returns.
\<close>

datatype place = Outer | Inner real real

partial_function (option) match_loop ::
  "place \<Rightarrow> Trade list \<Rightarrow> Orderbook \<Rightarrow> (Trade list \<times> Orderbook) outcome option" where
  "match_loop pl trades b =
     (case pl of
        Outer \<Rightarrow>
          (if bids b \<noteq> [] \<and> asks b \<noteq> [] then
             (let best_bid_price = Max (set (keys (bids b)));
                  best_ask_price = Min (set (keys (asks b)))
              in if best_bid_price < best_ask_price then Some (Returns (trades, b))
                 else match_loop (Inner best_bid_price best_ask_price) trades b)
           else Some (Returns (trades, b)))
      | Inner best_bid_price best_ask_price \<Rightarrow>
          (case map_of (bids b) best_bid_price of
             None \<Rightarrow> Some (Raises KeyError)
           | Some [] \<Rightarrow> match_loop Outer trades b
           | Some (bid # bq) \<Rightarrow>
              (case map_of (asks b) best_ask_price of
                 None \<Rightarrow> Some (Raises KeyError)
               | Some [] \<Rightarrow> match_loop Outer trades b
               | Some (ask # aq) \<Rightarrow>
                  (case match_step best_bid_price best_ask_price bid ask trades b of
                     Exit r \<Rightarrow> Some r
                   | LeaveInner trades' b' \<Rightarrow> match_loop Outer trades' b'
                   | NextInner trades' b' \<Rightarrow>
                       match_loop (Inner best_bid_price best_ask_price) trades' b'))))"

declare match_loop.simps [code]

definition match_orders :: "Orderbook \<Rightarrow> (Trade list \<times> Orderbook) outcome option" where
  "match_orders b = match_loop Outer [] b"

subsection \<open>The public operations\<close>

text \<open>The Market branch of \<open>add_order\<close>; \<open>None\<close> is its \<open>return []\<close>.\<close>

definition market_conversion :: "Orderbook \<Rightarrow> Order \<Rightarrow> (error + Order) option" where
  "market_conversion b ord =
     (if order_type ord = MARKET then
        (if side ord = BUY \<and> asks b \<noteq> []
         then Some (to_good_till_cancel ord (Max (set (keys (asks b)))))
         else if side ord = SELL \<and> bids b \<noteq> []
         then Some (to_good_till_cancel ord (Min (set (keys (bids b)))))
         else None)
      else Some (Inr ord))"

text \<open>The end of a \<open>with self.lock:\<close> block whose body produced \<open>r\<close>.\<close>

fun leave_lock :: "(Trade list \<times> Orderbook) outcome \<Rightarrow> (Trade list \<times> Orderbook) outcome" where
  "leave_lock (Returns (trades, b)) = bind_outcome (release b) (\<lambda>b'. Returns (trades, b'))"
| "leave_lock (Raises e) = Raises e"
| "leave_lock Deadlock = Deadlock"

definition insert_order :: "Orderbook \<Rightarrow> Order \<Rightarrow> Orderbook" where
  "insert_order b ord =
     (let orders_dict = side_map b (side ord);
          orders_dict1 = (if price ord \<notin> set (keys orders_dict)
                          then AList.update (price ord) [] orders_dict else orders_dict);
          order_list = (case map_of orders_dict1 (price ord) of None \<Rightarrow> [] | Some q \<Rightarrow> q);
          orders_dict2 = AList.update (price ord) (order_list @ [ord]) orders_dict1;
          b1 = set_side_map (side ord) orders_dict2 b;
          b2 = b1\<lparr>orders := AList.update (order_id ord) ord (orders b1)\<rparr>
      in update_level_data b2 (price ord) (initial_quantity ord) True False)"

definition add_order :: "Orderbook \<Rightarrow> Order \<Rightarrow> (Trade list \<times> Orderbook) outcome option" where
  "add_order b ord =
     (if lock b then Some Deadlock
      else let b0 = acquire b
        in if order_id ord \<in> set (keys (orders b0)) then Some (leave_lock (Returns ([], b0)))
           else case market_conversion b0 ord of
             None \<Rightarrow> Some (leave_lock (Returns ([], b0)))
           | Some (Inl e) \<Rightarrow> Some (Raises e)
           | Some (Inr ord1) \<Rightarrow>
               if order_type ord1 = FILL_AND_KILL \<and> \<not> can_match b0 (side ord1) (price ord1)
               then Some (leave_lock (Returns ([], b0)))
               else if order_type ord1 = FILL_OR_KILL \<and>
                       \<not> can_fully_fill b0 (side ord1) (price ord1) (initial_quantity ord1)
               then Some (leave_lock (Returns ([], b0)))
               else map_option leave_lock (match_orders (insert_order b0 ord1)))"

definition modify_order ::
  "Orderbook \<Rightarrow> OrderModify \<Rightarrow> (Trade list \<times> Orderbook) outcome option" where
  "modify_order b m =
     (if lock b then Some Deadlock
      else let b0 = acquire b
        in case map_of (orders b0) (m_order_id m) of
          None \<Rightarrow> Some (leave_lock (Returns ([], b0)))
        | Some original_order \<Rightarrow>
            (case cancel_order b0 (m_order_id m) of
               Deadlock \<Rightarrow> Some Deadlock
             | Raises e \<Rightarrow> Some (Raises e)
             | Returns b1 \<Rightarrow>
                 map_option leave_lock
                   (add_order b1 (to_order m (order_type original_order)))))"

definition size_book :: "Orderbook \<Rightarrow> nat outcome" where
  "size_book b =
     (if lock b then Deadlock
      else bind_outcome (release (acquire b)) (\<lambda>b'. Returns (length (orders b'))))"

section \<open>Vocabulary of the statements\<close>

definition other_side :: "Side \<Rightarrow> Side" where
  "other_side sd = (if sd = BUY then SELL else BUY)"

text \<open>The orders resting in a side map, and a trade side that carries an order's
  identifier and that order's own limit price.\<close>

definition residents :: "(real \<times> Order list) list \<Rightarrow> Order list" where
  "residents m = concat (map snd m)"





text \<open>
  A place of the matching loop from which it goes round for ever: the book is crossed and
  the queue at the best ask price is empty, so the inner loop is skipped and the outer one
  chooses the same two prices again.
\<close>

definition spins :: "place \<Rightarrow> Orderbook \<Rightarrow> bool" where
  "spins pl b \<longleftrightarrow>
     bids b \<noteq> [] \<and> asks b \<noteq> [] \<and>
     \<not> Max (set (keys (bids b))) < Min (set (keys (asks b))) \<and>
     map_of (bids b) (Max (set (keys (bids b)))) \<noteq> None \<and>
     map_of (asks b) (Min (set (keys (asks b)))) = Some [] \<and>
     (pl = Outer \<or> pl = Inner (Max (set (keys (bids b)))) (Min (set (keys (asks b)))))"

section \<open>Books and orders of the scenarios\<close>

definition sell1 :: Order where "sell1 = new_order GOOD_TILL_CANCEL 1 SELL 100 5"
definition sell2 :: Order where "sell2 = new_order GOOD_TILL_CANCEL 2 SELL 101 5"
definition fak3 :: Order where "fak3 = new_order FILL_AND_KILL 3 BUY 101 7"

definition book_one_ask :: Orderbook where
  "book_one_ask =
     \<lparr>data = [(100, \<lparr>quantity = 5, count = 1\<rparr>)], bids = [],
      asks = [(100, [sell1])], orders = [(1, sell1)], lock = False\<rparr>"

definition book_two_asks :: Orderbook where
  "book_two_asks =
     \<lparr>data = [(100, \<lparr>quantity = 5, count = 1\<rparr>), (101, \<lparr>quantity = 5, count = 1\<rparr>)],
      bids = [], asks = [(100, [sell1]), (101, [sell2])],
      orders = [(1, sell1), (2, sell2)], lock = False\<rparr>"

definition book_after_fak :: Orderbook where
  "book_after_fak =
     \<lparr>data = [(100, \<lparr>quantity = 0, count = 1\<rparr>), (101, \<lparr>quantity = 5, count = 1\<rparr>)],
      bids = [],
      asks = [(100, [sell1\<lparr>remaining_quantity := 0\<rparr>]), (101, [sell2])],
      orders = [(1, sell1\<lparr>remaining_quantity := 0\<rparr>), (2, sell2)], lock = False\<rparr>"

definition fak_exact :: Order where "fak_exact = new_order FILL_AND_KILL 2 BUY 100 5"

definition book_crossed :: Orderbook where
  "book_crossed =
     \<lparr>data = [(100, \<lparr>quantity = 0, count = 2\<rparr>)],
      bids = [(100, [fak_exact\<lparr>remaining_quantity := 0\<rparr>])],
      asks = [(100, [sell1\<lparr>remaining_quantity := 0\<rparr>])],
      orders = [(1, sell1\<lparr>remaining_quantity := 0\<rparr>),
                (2, fak_exact\<lparr>remaining_quantity := 0\<rparr>)],
      lock = False\<rparr>"

definition buy99 :: Order where "buy99 = new_order GOOD_TILL_CANCEL 2 BUY 99 10"
definition fok3 :: Order where "fok3 = new_order FILL_OR_KILL 3 BUY 100 10"

definition book_ask_and_bid :: Orderbook where
  "book_ask_and_bid =
     \<lparr>data = [(100, \<lparr>quantity = 5, count = 1\<rparr>), (99, \<lparr>quantity = 10, count = 1\<rparr>)],
      bids = [(99, [buy99])], asks = [(100, [sell1])],
      orders = [(1, sell1), (2, buy99)], lock = False\<rparr>"

definition book_after_fok :: Orderbook where
  "book_after_fok =
     \<lparr>data = [(100, \<lparr>quantity = 5, count = 2\<rparr>), (99, \<lparr>quantity = 10, count = 1\<rparr>)],
      bids = [(99, [buy99]), (100, [fok3\<lparr>remaining_quantity := 5\<rparr>])], asks = [],
      orders = [(2, buy99), (3, fok3\<lparr>remaining_quantity := 5\<rparr>)], lock = False\<rparr>"

definition buy1 :: Order where "buy1 = new_order GOOD_TILL_CANCEL 1 BUY 100 5"
definition sell2_100 :: Order where "sell2_100 = new_order GOOD_TILL_CANCEL 2 SELL 100 5"
definition sell3 :: Order where "sell3 = new_order GOOD_TILL_CANCEL 3 SELL 100 1"

definition book_one_bid :: Orderbook where
  "book_one_bid =
     \<lparr>data = [(100, \<lparr>quantity = 5, count = 1\<rparr>)], bids = [(100, [buy1])], asks = [],
      orders = [(1, buy1)], lock = False\<rparr>"

definition book_stale_level :: Orderbook where
  "book_stale_level =
     \<lparr>data = [(100, \<lparr>quantity = 0, count = 2\<rparr>)], bids = [], asks = [(100, [])],
      orders = [], lock = False\<rparr>"

definition book_stale_plus :: Orderbook where
  "book_stale_plus =
     \<lparr>data = [(100, \<lparr>quantity = 1, count = 3\<rparr>)], bids = [], asks = [(100, [sell3])],
      orders = [(3, sell3)], lock = False\<rparr>"

definition buy10 :: Order where "buy10 = new_order GOOD_TILL_CANCEL 1 BUY 100 10"
definition modify6 :: OrderModify where "modify6 = OrderModify 1 BUY 101 15"

definition book_buy10 :: Orderbook where
  "book_buy10 =
     \<lparr>data = [(100, \<lparr>quantity = 10, count = 1\<rparr>)], bids = [(100, [buy10])], asks = [],
      orders = [(1, buy10)], lock = False\<rparr>"

definition book_modified :: Orderbook where
  "book_modified =
     \<lparr>data = [(101, \<lparr>quantity = 15, count = 1\<rparr>)],
      bids = [(101, [new_order GOOD_TILL_CANCEL 1 BUY 101 15])], asks = [],
      orders = [(1, new_order GOOD_TILL_CANCEL 1 BUY 101 15)], lock = False\<rparr>"

definition book_only_sell2 :: Orderbook where
  "book_only_sell2 =
     \<lparr>data = [(101, \<lparr>quantity = 5, count = 1\<rparr>)], bids = [], asks = [(101, [sell2])],
      orders = [(2, sell2)], lock = False\<rparr>"

text \<open>
  Market buys as \<open>create_market_order\<close> builds them (the price is a placeholder), met
  by an ask level whose queue is empty.
\<close>

definition market3 :: Order where "market3 = new_order MARKET 3 BUY 0 5"

definition sell105 :: Order where "sell105 = new_order GOOD_TILL_CANCEL 1 SELL 105 5"
definition buy105 :: Order where "buy105 = new_order GOOD_TILL_CANCEL 2 BUY 105 5"
definition sell3_100 :: Order where "sell3_100 = new_order GOOD_TILL_CANCEL 3 SELL 100 5"
definition market4 :: Order where "market4 = new_order MARKET 4 BUY 0 5"

definition book_sell105 :: Orderbook where
  "book_sell105 =
     \<lparr>data = [(105, \<lparr>quantity = 5, count = 1\<rparr>)], bids = [], asks = [(105, [sell105])],
      orders = [(1, sell105)], lock = False\<rparr>"

definition book_stale_105 :: Orderbook where
  "book_stale_105 =
     \<lparr>data = [(105, \<lparr>quantity = 0, count = 2\<rparr>)], bids = [], asks = [(105, [])],
      orders = [], lock = False\<rparr>"

definition book_stale_and_ask :: Orderbook where
  "book_stale_and_ask =
     \<lparr>data = [(105, \<lparr>quantity = 0, count = 2\<rparr>), (100, \<lparr>quantity = 5, count = 1\<rparr>)],
      bids = [], asks = [(105, []), (100, [sell3_100])],
      orders = [(3, sell3_100)], lock = False\<rparr>"

definition book_after_market4 :: Orderbook where
  "book_after_market4 =
     \<lparr>data = [(105, \<lparr>quantity = 0, count = 3\<rparr>), (100, \<lparr>quantity = 0, count = 1\<rparr>)],
      bids = [], asks = [(105, []), (100, [])], orders = [], lock = False\<rparr>"

text \<open>A sell that is partly filled, cancelled, and handed to \<open>add_order\<close> again.\<close>

definition buy2_101 :: Order where "buy2_101 = new_order GOOD_TILL_CANCEL 2 BUY 101 2"

definition book_partly_filled :: Orderbook where
  "book_partly_filled =
     \<lparr>data = [(100, \<lparr>quantity = 3, count = 1\<rparr>), (101, \<lparr>quantity = 0, count = 1\<rparr>)],
      bids = [], asks = [(100, [sell1\<lparr>remaining_quantity := 3\<rparr>])],
      orders = [(1, sell1\<lparr>remaining_quantity := 3\<rparr>)], lock = False\<rparr>"

definition book_ledger_101 :: Orderbook where
  "book_ledger_101 =
     \<lparr>data = [(101, \<lparr>quantity = 0, count = 1\<rparr>)], bids = [], asks = [], orders = [],
      lock = False\<rparr>"

definition book_readded :: Orderbook where
  "book_readded =
     \<lparr>data = [(101, \<lparr>quantity = 0, count = 1\<rparr>), (100, \<lparr>quantity = 5, count = 1\<rparr>)],
      bids = [], asks = [(100, [sell1\<lparr>remaining_quantity := 3\<rparr>])],
      orders = [(1, sell1\<lparr>remaining_quantity := 3\<rparr>)], lock = False\<rparr>"



section \<open>Basic facts about the operations\<close>

lemma side_map_simps [simp]: "side_map b BUY = bids b" "side_map b SELL = asks b"
  by (simp_all add: side_map_def)

lemma set_side_map_simps [simp]:
  "bids (set_side_map BUY m b) = m" "asks (set_side_map BUY m b) = asks b"
  "bids (set_side_map SELL m b) = bids b" "asks (set_side_map SELL m b) = m"
  by (simp_all add: set_side_map_def)

lemma set_side_map_fields [simp]:
  "orders (set_side_map sd m b) = orders b" "data (set_side_map sd m b) = data b"
  "lock (set_side_map sd m b) = lock b"
  by (simp_all add: set_side_map_def)

lemma side_map_set_side_map:
  "side_map (set_side_map sd m b) sd' = (if sd' = sd then m else side_map b sd')"
  by (cases sd; cases sd') simp_all

lemma update_level_data_fields [simp]:
  "orders (update_level_data b p q a m) = orders b"
  "bids (update_level_data b p q a m) = bids b"
  "asks (update_level_data b p q a m) = asks b"
  "lock (update_level_data b p q a m) = lock b"
  by (simp_all add: update_level_data_def Let_def)

lemma side_map_update_level_data [simp]:
  "side_map (update_level_data b p q a m) sd = side_map b sd"
  by (simp add: side_map_def)

lemma side_map_orders_update [simp]: "side_map (b\<lparr>orders := x\<rparr>) sd = side_map b sd"
  by (simp add: side_map_def)

lemma side_map_lock_update [simp]: "side_map (b\<lparr>lock := x\<rparr>) sd = side_map b sd"
  by (simp add: side_map_def)

lemma acquire_fields [simp]:
  "bids (acquire b) = bids b" "asks (acquire b) = asks b" "orders (acquire b) = orders b"
  "data (acquire b) = data b" "lock (acquire b)"
  by (simp_all add: acquire_def)

lemma release_acquire: "\<not> lock b \<Longrightarrow> release (acquire b) = Returns b"
  by (simp add: release_def acquire_def)

lemma lock_set_head [simp]: "lock (set_head sd p ord b) = lock b"
  by (simp add: set_head_def split: option.split list.split)

lemma other_side_neq: "other_side sd \<noteq> sd"
  by (cases sd) (simp_all add: other_side_def)


lemma cancel_order_locked: "lock b \<Longrightarrow> cancel_order b oid = Deadlock"
  by (simp add: cancel_order_def)

lemma cancel_order_registered:
  assumes "\<not> lock b" "map_of (orders b) oid = Some ord"
    "map_of (side_map b (side ord)) (price ord) = Some q" "remove_order oid q = Some q'"
  shows "cancel_order b oid =
     Returns ((update_level_data
        (set_side_map (side ord)
           (if q' = []
            then AList.delete (price ord) (AList.update (price ord) q' (side_map b (side ord)))
            else AList.update (price ord) q' (side_map b (side ord)))
           (b\<lparr>lock := True, orders := AList.delete oid (orders b)\<rparr>))
        (price ord) (remaining_quantity ord) False False)\<lparr>lock := False\<rparr>)"
  using assms
  by (simp add: cancel_order_def acquire_def release_def Let_def)



lemma fill_heads_returns: "\<exists>r. fill_heads B A bid ask trades b = Inr r"
  by (simp add: fill_heads_def Let_def fill_def)

lemma fill_heads_min:
  "fill_heads B A bid ask trades b = Inr (bid', ask', trades', b') \<Longrightarrow>
   bid' = bid\<lparr>remaining_quantity :=
            remaining_quantity bid - min (remaining_quantity bid) (remaining_quantity ask)\<rparr> \<and>
   ask' = ask\<lparr>remaining_quantity :=
            remaining_quantity ask - min (remaining_quantity bid) (remaining_quantity ask)\<rparr> \<and>
   trades' = trades @
     [Trade (TradeInfo (order_id bid) (price bid)
               (min (remaining_quantity bid) (remaining_quantity ask)))
            (TradeInfo (order_id ask) (price ask)
               (min (remaining_quantity bid) (remaining_quantity ask)))] \<and>
   lock b' = lock b"
  by (auto simp add: fill_heads_def Let_def fill_def split: if_splits)

section \<open>The fill-and-kill branch of the matching loop\<close>

text \<open>
  C1. The specification's scenario 5: two resting sells (1: 5 at 100, 2: 5 at 101), then
  a fill-and-kill buy 3 of 7 at 101. The specification expects one trade, the residual of
  order 3 cancelled, the filled order 1 gone, and \<open>size() = 1\<close>.
  In the code, \<open>add_order\<close> holds the lock when the fill-and-kill branch calls
  \<open>cancel_order\<close>, which acquires the same lock: the admission blocks for ever.
  Run with the lock free, the loop emits the one trade and cancels order 3, but returns
  before it removes the filled order 1, which stays in its queue and in the registry with
  nothing remaining: \<open>size()\<close> is 2.
\<close>

theorem scenario5_fill_and_kill:
  "add_order init sell1 = Some (Returns ([], book_one_ask)) \<and>
   add_order book_one_ask sell2 = Some (Returns ([], book_two_asks)) \<and>
   add_order book_two_asks fak3 = Some Deadlock \<and>
   match_orders (insert_order book_two_asks fak3) =
     Some (Returns ([Trade (TradeInfo 3 101 5) (TradeInfo 1 100 5)], book_after_fak)) \<and>
   map_of (orders book_after_fak) 1 = Some (sell1\<lparr>remaining_quantity := 0\<rparr>) \<and>
   size_book book_after_fak = Returns 2"
  by code_simp

section \<open>The book at rest\<close>

text \<open>
  C2. A resting sell of 5 at 100 and a fill-and-kill buy of 5 at 100 fill each other
  exactly. The fill-and-kill branch returns before the filled heads are removed, no
  cancellation is called, and the admission completes with both orders still in their
  queues: the bid map and the ask map are both non-empty and the best bid, 100, is not
  below the best ask, 100.
\<close>

theorem fill_and_kill_leaves_book_crossed:
  "add_order init sell1 = Some (Returns ([], book_one_ask)) \<and>
   add_order book_one_ask fak_exact =
     Some (Returns ([Trade (TradeInfo 2 100 5) (TradeInfo 1 100 5)], book_crossed)) \<and>
   bids book_crossed \<noteq> [] \<and> asks book_crossed \<noteq> [] \<and>
   \<not> Max (set (keys (bids book_crossed))) < Min (set (keys (asks book_crossed)))"
  by code_simp

section \<open>Fill-or-kill admission\<close>

text \<open>
  C3. The ledger \<open>data\<close> is keyed by price alone, so the feasibility walk of a buy also
  counts the quantity of resting bids below its limit. With a sell of 5 at 100 and a bid
  of 10 at 99 resting, a fill-or-kill buy of 10 at 100 passes the test, trades 5, and
  rests with 5 remaining: neither filled in full nor leaving the book unchanged.
\<close>

theorem fill_or_kill_partially_filled:
  "add_order init sell1 = Some (Returns ([], book_one_ask)) \<and>
   add_order book_one_ask buy99 = Some (Returns ([], book_ask_and_bid)) \<and>
   can_fully_fill book_ask_and_bid BUY 100 10 \<and>
   add_order book_ask_and_bid fok3 =
     Some (Returns ([Trade (TradeInfo 3 100 5) (TradeInfo 1 100 5)], book_after_fok)) \<and>
   map_of (orders book_after_fok) 3 = Some (fok3\<lparr>remaining_quantity := 5\<rparr>)"
  by code_simp

section \<open>Insertion followed by cancellation\<close>

text \<open>
  C6. A buy and a sell of 5 at 100 fill each other. The inner loop drops the emptied bid
  level and leaves by \<open>break\<close> before it looks at the ask level, whose empty queue stays
  in the ask map. A sell of 1 at 100 is then not marketable; adding it and cancelling it
  removes the level, so the book is not the one before the addition.
\<close>

theorem add_then_cancel_drops_level:
  "add_order init buy1 = Some (Returns ([], book_one_bid)) \<and>
   add_order book_one_bid sell2_100 =
     Some (Returns ([Trade (TradeInfo 1 100 5) (TradeInfo 2 100 5)], book_stale_level)) \<and>
   \<not> can_match book_stale_level SELL 100 \<and>
   add_order book_stale_level sell3 = Some (Returns ([], book_stale_plus)) \<and>
   cancel_order book_stale_plus 3 = Returns (book_stale_level\<lparr>asks := []\<rparr>) \<and>
   book_stale_level\<lparr>asks := []\<rparr> \<noteq> book_stale_level"
  by code_simp

section \<open>Modification\<close>

text \<open>
  C7. The specification's scenario 6: a buy of 10 at 100, modified to 15 at 101.
  \<open>modify_order\<close> calls \<open>cancel_order\<close> while it holds the lock and blocks for ever,
  whereas the cancellation followed by the addition of the rebuilt order returns the book
  with the one bid of 15 at 101.
\<close>

theorem scenario6_modify_blocks:
  "add_order init buy10 = Some (Returns ([], book_buy10)) \<and>
   modify_order book_buy10 modify6 = Some Deadlock \<and>
   cancel_order book_buy10 1 = Returns init \<and>
   add_order init (to_order modify6 GOOD_TILL_CANCEL) = Some (Returns ([], book_modified))"
  by code_simp

section \<open>Market orders\<close>

text \<open>
  What the Market branch of \<open>add_order\<close> does for a buy: it tests the ask map, not the
  orders resting in it, and takes the greatest key of the map.
\<close>

lemma market_buy_admission:
  assumes "order_type ord = MARKET" "side ord = BUY" "asks b \<noteq> []" "\<not> lock b"
    "order_id ord \<notin> set (keys (orders b))"
  shows "add_order b ord =
     map_option leave_lock
       (match_orders (insert_order (acquire b)
          (ord\<lparr>price := Max (set (keys (asks b))), order_type := GOOD_TILL_CANCEL\<rparr>)))"
  using assms
  by (simp add: add_order_def market_conversion_def Let_def to_good_till_cancel_def)

text \<open>
  With the book crossed and an empty queue at the best ask price, \<open>_match_orders\<close> never
  returns.
\<close>

lemma empty_ask_level_spins:
  assumes "match_loop pl trades b = Some r"
  shows "\<not> spins pl b"
proof (rule match_loop.raw_induct
    [where P = "\<lambda>pl trades b r. \<not> spins pl b", OF _ assms], goal_cases)
  case (1 loop pl trades b r)
  note IH = 1(1) and body = 1(2)
  show ?case
  proof
    assume s: "spins pl b"
    then have o: "spins Outer b"
      and i: "spins (Inner (Max (set (keys (bids b)))) (Min (set (keys (asks b))))) b"
      by (simp_all add: spins_def)
    from s consider "pl = Outer"
      | "pl = Inner (Max (set (keys (bids b)))) (Min (set (keys (asks b))))"
      by (auto simp add: spins_def)
    then show False
    proof cases
      case 1
      with s body have
        "loop (Inner (Max (set (keys (bids b)))) (Min (set (keys (asks b))))) trades b = Some r"
        by (simp add: spins_def Let_def)
      from IH [OF this] i show False by simp
    next
      case 2
      with s body have "loop Outer trades b = Some r"
        by (auto simp add: spins_def split: list.splits)
      from IH [OF this] o show False by simp
    qed
  qed
qed

lemma empty_ask_level_never_returns:
  assumes "bids b \<noteq> []" "asks b \<noteq> []"
    "\<not> Max (set (keys (bids b))) < Min (set (keys (asks b)))"
    "map_of (bids b) (Max (set (keys (bids b)))) \<noteq> None"
    "map_of (asks b) (Min (set (keys (asks b)))) = Some []"
  shows "match_orders b = None"
proof (cases "match_orders b")
  case None
  then show ?thesis .
next
  case (Some r)
  then have "match_loop Outer [] b = Some r" by (simp add: match_orders_def)
  from empty_ask_level_spins [OF this] assms show ?thesis by (simp add: spins_def)
qed

text \<open>
  C5. The ask level left empty by the matching loop (a buy and a sell of 5 at 100 fill
  each other, or the same at 105) is a key of the ask map with no order resting at it.
  In the first book no ask rests at all, yet a Market buy is not dropped: it is rewritten
  to 100, inserted, and the matching loop never returns. In the second book the only
  resting ask is at 100, yet the Market buy is rewritten to 105, the key of the empty
  level, and its side of the trade reports 105.
\<close>

theorem market_order_on_empty_level:
  "add_order init buy1 = Some (Returns ([], book_one_bid)) \<and>
   add_order book_one_bid sell2_100 =
     Some (Returns ([Trade (TradeInfo 1 100 5) (TradeInfo 2 100 5)], book_stale_level)) \<and>
   residents (asks book_stale_level) = [] \<and>
   add_order book_stale_level market3 = None \<and>
   add_order init sell105 = Some (Returns ([], book_sell105)) \<and>
   add_order book_sell105 buy105 =
     Some (Returns ([Trade (TradeInfo 2 105 5) (TradeInfo 1 105 5)], book_stale_105)) \<and>
   add_order book_stale_105 sell3_100 = Some (Returns ([], book_stale_and_ask)) \<and>
   residents (asks book_stale_and_ask) = [sell3_100] \<and> price sell3_100 = 100 \<and>
   market_conversion book_stale_and_ask market4 =
     Some (Inr (market4\<lparr>price := 105, order_type := GOOD_TILL_CANCEL\<rparr>)) \<and>
   add_order book_stale_and_ask market4 =
     Some (Returns ([Trade (TradeInfo 4 105 5) (TradeInfo 3 100 5)], book_after_market4))"
proof -
  have 1: "add_order init buy1 = Some (Returns ([], book_one_bid))" by code_simp
  have 2: "add_order book_one_bid sell2_100 =
     Some (Returns ([Trade (TradeInfo 1 100 5) (TradeInfo 2 100 5)], book_stale_level))"
    by code_simp
  have 3: "residents (asks book_stale_level) = []" by code_simp
  let ?b = "insert_order (acquire book_stale_level)
      (market3\<lparr>price := Max (set (keys (asks book_stale_level))),
               order_type := GOOD_TILL_CANCEL\<rparr>)"
  have a: "order_type market3 = MARKET" "side market3 = BUY" "asks book_stale_level \<noteq> []"
    "\<not> lock book_stale_level" "order_id market3 \<notin> set (keys (orders book_stale_level))"
    by code_simp+
  have s: "bids ?b \<noteq> []" "asks ?b \<noteq> []"
    "\<not> Max (set (keys (bids ?b))) < Min (set (keys (asks ?b)))"
    "map_of (bids ?b) (Max (set (keys (bids ?b)))) \<noteq> None"
    "map_of (asks ?b) (Min (set (keys (asks ?b)))) = Some []"
    by code_simp+
  have 4: "add_order book_stale_level market3 = None"
    by (simp add: market_buy_admission [OF a] empty_ask_level_never_returns [OF s])
  have 5: "add_order init sell105 = Some (Returns ([], book_sell105))" by code_simp
  have 6: "add_order book_sell105 buy105 =
     Some (Returns ([Trade (TradeInfo 2 105 5) (TradeInfo 1 105 5)], book_stale_105))"
    by code_simp
  have 7: "add_order book_stale_105 sell3_100 = Some (Returns ([], book_stale_and_ask))"
    by code_simp
  have 8: "residents (asks book_stale_and_ask) = [sell3_100] \<and> price sell3_100 = 100"
    by code_simp
  have 9: "market_conversion book_stale_and_ask market4 =
     Some (Inr (market4\<lparr>price := 105, order_type := GOOD_TILL_CANCEL\<rparr>))" by code_simp
  have 10: "add_order book_stale_and_ask market4 =
     Some (Returns ([Trade (TradeInfo 4 105 5) (TradeInfo 3 100 5)], book_after_market4))"
    by code_simp
  from 1 2 3 4 5 6 7 8 9 10 show ?thesis by simp
qed

section \<open>Fills in the matching loop\<close>

lemma release_no_fill_error: "release b \<noteq> Raises FillError"
  by (simp add: release_def)

lemma cancel_order_no_fill_error: "cancel_order b oid \<noteq> Raises FillError"
  by (simp add: cancel_order_def release_def Let_def split: option.split)

lemma pop_filled_no_fill_error: "pop_filled sd p oid b \<noteq> Raises FillError"
  by (simp add: pop_filled_def Let_def split: option.split list.split)

lemma bind_outcome_no_fill_error:
  "x \<noteq> Raises FillError \<Longrightarrow> (\<And>y. f y \<noteq> Raises FillError) \<Longrightarrow>
   bind_outcome x f \<noteq> Raises FillError"
  by (cases x) simp_all

lemma kill_residuals_no_fill_error: "kill_residuals bid ask trades b \<noteq> Raises FillError"
  unfolding kill_residuals_def
  by (intro bind_outcome_no_fill_error) (simp_all add: cancel_order_no_fill_error)

lemma drop_filled_no_fill_error: "drop_filled B A bid ask b \<noteq> Raises FillError"
  unfolding drop_filled_def
  by (intro bind_outcome_no_fill_error) (simp_all add: pop_filled_no_fill_error)

lemma drop_levels_no_fill_error: "drop_levels B A trades b \<noteq> Exit (Raises FillError)"
  by (simp add: drop_levels_def split: option.split list.split)

lemma match_step_no_fill_error: "match_step B A bid ask trades b \<noteq> Exit (Raises FillError)"
proof -
  obtain bid' ask' trades' b1 where
    h: "fill_heads B A bid ask trades b = Inr (bid', ask', trades', b1)"
    using fill_heads_returns [of B A bid ask trades b] by (metis prod_cases4)
  show ?thesis
    using kill_residuals_no_fill_error [of bid' ask' trades' b1]
      drop_filled_no_fill_error [of B A bid' ask' b1] drop_levels_no_fill_error [of B A trades']
    by (auto simp add: match_step_def h split: outcome.split)
qed

lemma match_loop_result_no_fill_error:
  assumes "match_loop pl trades b = Some r"
  shows "r \<noteq> Raises FillError"
proof (rule match_loop.raw_induct
    [where P = "\<lambda>pl trades b r. r \<noteq> Raises FillError", OF _ assms], goal_cases)
  case (1 loop pl trades b r)
  show ?case
  proof (cases pl)
    case Outer
    with 1 show ?thesis by (auto simp: Let_def split: if_splits)
  next
    case (Inner B A)
    with 1 show ?thesis
      using match_step_no_fill_error
      by (auto split: option.splits list.splits step.splits)
  qed
qed

lemma leave_lock_no_fill_error: "r \<noteq> Raises FillError \<Longrightarrow> leave_lock r \<noteq> Raises FillError"
  by (cases r rule: leave_lock.cases) (simp_all add: release_def)

lemma add_order_result_no_fill_error:
  assumes "add_order b ord = Some r"
  shows "r \<noteq> Raises FillError"
proof -
  have c: "market_conversion (acquire b) ord \<noteq> Some (Inl FillError)"
    by (simp add: market_conversion_def to_good_till_cancel_def)
  have m: "match_orders b' = Some r' \<Longrightarrow> leave_lock r' \<noteq> Raises FillError" for b' r'
    using match_loop_result_no_fill_error [of Outer "[]" b' r'] leave_lock_no_fill_error
    by (simp add: match_orders_def)
  from assms c m show ?thesis
    by (auto simp add: add_order_def Let_def release_def
        split: if_splits option.splits sum.splits)
qed

text \<open>
  C8. In the matching loop each of the two calls of \<open>Order.fill\<close> gets the minimum of
  the two remaining quantities, which is no greater than the remaining quantity of either
  order, so both calls succeed; no run of the loop, of \<open>_match_orders\<close> or of
  \<open>add_order\<close> ends with the error of \<open>Order.fill\<close>.
\<close>

theorem matching_never_overfills:
  "min (remaining_quantity bid) (remaining_quantity ask) \<le> remaining_quantity bid \<and>
   min (remaining_quantity bid) (remaining_quantity ask) \<le> remaining_quantity ask \<and>
   fill bid (min (remaining_quantity bid) (remaining_quantity ask)) \<noteq> Inl FillError \<and>
   fill ask (min (remaining_quantity bid) (remaining_quantity ask)) \<noteq> Inl FillError \<and>
   (\<exists>r. fill_heads B A bid ask trades b = Inr r) \<and>
   match_step B A bid ask trades b \<noteq> Exit (Raises FillError) \<and>
   match_loop pl trades b \<noteq> Some (Raises FillError) \<and>
   match_orders b \<noteq> Some (Raises FillError) \<and>
   add_order b ord \<noteq> Some (Raises FillError)"
proof -
  have 1: "match_loop pl trades b \<noteq> Some (Raises FillError)"
    using match_loop_result_no_fill_error by blast
  have 2: "match_orders b \<noteq> Some (Raises FillError)"
    using match_loop_result_no_fill_error by (auto simp add: match_orders_def)
  have 3: "add_order b ord \<noteq> Some (Raises FillError)"
    using add_order_result_no_fill_error by blast
  have 4: "fill bid (min (remaining_quantity bid) (remaining_quantity ask)) \<noteq> Inl FillError"
    "fill ask (min (remaining_quantity bid) (remaining_quantity ask)) \<noteq> Inl FillError"
    by (simp_all add: fill_def)
  from 1 2 3 4 match_step_no_fill_error [of B A bid ask trades b]
    fill_heads_returns [of B A bid ask trades b]
  show ?thesis by simp
qed

text \<open>The loop run on the crossed book of scenario 5 with the lock free fills and returns.\<close>

theorem matching_never_overfills_witness:
  "fill fak3 (min (remaining_quantity fak3) (remaining_quantity sell1)) =
     Inr (fak3\<lparr>remaining_quantity := 2\<rparr>) \<and>
   fill fak3 (min (remaining_quantity fak3) (remaining_quantity sell1)) \<noteq> Inl FillError \<and>
   match_orders (insert_order book_two_asks fak3) \<noteq> Some (Raises FillError) \<and>
   match_orders (insert_order book_two_asks fak3) =
     Some (Returns ([Trade (TradeInfo 3 101 5) (TradeInfo 1 100 5)], book_after_fak))"
proof -
  have 1: "fill fak3 (min (remaining_quantity fak3) (remaining_quantity sell1)) =
     Inr (fak3\<lparr>remaining_quantity := 2\<rparr>)" by code_simp
  have 2: "match_orders (insert_order book_two_asks fak3) =
     Some (Returns ([Trade (TradeInfo 3 101 5) (TradeInfo 1 100 5)], book_after_fak))"
    by code_simp
  from matching_never_overfills [of fak3 sell1 _ _ _ "insert_order book_two_asks fak3"] 1 2
  show ?thesis by blast
qed

section \<open>The lock\<close>

text \<open>
  C9. Two places acquire the lock while the calling thread holds it. \<open>modify_order\<close>,
  entered with the lock free for a registered identifier, takes the lock and calls
  \<open>cancel_order\<close>, which takes it again: the call blocks. In the matching loop, which
  \<open>add_order\<close> runs with the lock held, a fill where one head is fill-and-kill and the
  two remaining quantities differ leaves a residual head, and the call of \<open>cancel_order\<close>
  for it blocks.
\<close>

theorem lock_acquired_while_held:
  "(\<not> lock b \<and> map_of (orders b) (m_order_id m) \<noteq> None \<longrightarrow>
      modify_order b m = Some Deadlock) \<and>
   (lock b \<and> (order_type bid = FILL_AND_KILL \<or> order_type ask = FILL_AND_KILL) \<and>
    remaining_quantity bid \<noteq> remaining_quantity ask \<longrightarrow>
      match_step B A bid ask trades b = Exit Deadlock)"
proof (intro conjI impI)
  assume "\<not> lock b \<and> map_of (orders b) (m_order_id m) \<noteq> None"
  then show "modify_order b m = Some Deadlock"
    by (auto simp add: modify_order_def Let_def cancel_order_locked)
next
  assume a: "lock b \<and> (order_type bid = FILL_AND_KILL \<or> order_type ask = FILL_AND_KILL) \<and>
    remaining_quantity bid \<noteq> remaining_quantity ask"
  obtain bid' ask' trades' b' where
    h: "fill_heads B A bid ask trades b = Inr (bid', ask', trades', b')"
    using fill_heads_returns [of B A bid ask trades b] by (metis prod_cases4)
  note f = fill_heads_min [OF h]
  from f a have l: "lock b'" by simp
  from f a have t: "order_type bid' = FILL_AND_KILL \<or> order_type ask' = FILL_AND_KILL" by auto
  from f a have u: "\<not> is_filled bid' \<or> \<not> is_filled ask'"
    by (auto simp add: is_filled_def min_def split: if_splits)
  have "kill_residuals bid' ask' trades' b' = Deadlock"
    using u l by (auto simp add: kill_residuals_def cancel_order_locked)
  with h t show "match_step B A bid ask trades b = Exit Deadlock"
    by (simp add: match_step_def)
qed

text \<open>Scenario 6 for \<open>modify_order\<close>, and the first fill of scenario 5 under the lock.\<close>

theorem lock_acquired_while_held_witness:
  "\<not> lock book_buy10 \<and> map_of (orders book_buy10) (m_order_id modify6) \<noteq> None \<and>
   modify_order book_buy10 modify6 = Some Deadlock \<and>
   lock (insert_order (acquire book_two_asks) fak3) \<and>
   (order_type fak3 = FILL_AND_KILL \<or> order_type sell1 = FILL_AND_KILL) \<and>
   remaining_quantity fak3 \<noteq> remaining_quantity sell1 \<and>
   match_step 101 100 fak3 sell1 [] (insert_order (acquire book_two_asks) fak3) =
     Exit Deadlock"
proof -
  have 1: "\<not> lock book_buy10 \<and> map_of (orders book_buy10) (m_order_id modify6) \<noteq> None"
    by code_simp
  have 2: "lock (insert_order (acquire book_two_asks) fak3) \<and>
     (order_type fak3 = FILL_AND_KILL \<or> order_type sell1 = FILL_AND_KILL) \<and>
     remaining_quantity fak3 \<noteq> remaining_quantity sell1"
    by code_simp
  from lock_acquired_while_held [of book_buy10 modify6] 1
  have 3: "modify_order book_buy10 modify6 = Some Deadlock" by blast
  from lock_acquired_while_held
    [of "insert_order (acquire book_two_asks) fak3" _ fak3 sell1 101 100 "[]"] 2
  have 4: "match_step 101 100 fak3 sell1 [] (insert_order (acquire book_two_asks) fak3) =
     Exit Deadlock" by blast
  from 1 2 3 4 show ?thesis by blast
qed

section \<open>Cancellation\<close>

lemma remove_order_split:
  "oid \<in> order_id ` set q \<Longrightarrow>
   \<exists>xs x ys. q = xs @ x # ys \<and> order_id x = oid \<and> oid \<notin> order_id ` set xs \<and>
     remove_order oid q = Some (xs @ ys)"
proof (induction q)
  case Nil
  then show ?case by simp
next
  case (Cons a q)
  show ?case
  proof (cases "order_id a = oid")
    case True
    then have "a # q = [] @ a # q \<and> order_id a = oid \<and> oid \<notin> order_id ` set [] \<and>
        remove_order oid (a # q) = Some ([] @ q)" by simp
    then show ?thesis by blast
  next
    case False
    with Cons.prems have "oid \<in> order_id ` set q" by auto
    from Cons.IH [OF this] obtain xs x ys where
      h: "q = xs @ x # ys" "order_id x = oid" "oid \<notin> order_id ` set xs"
         "remove_order oid q = Some (xs @ ys)" by blast
    with False have "a # q = (a # xs) @ x # ys \<and> order_id x = oid \<and>
        oid \<notin> order_id ` set (a # xs) \<and> remove_order oid (a # q) = Some ((a # xs) @ ys)"
      by auto
    then show ?thesis by blast
  qed
qed

lemma data_remove:
  "map_of (data (update_level_data b p q False False)) =
     (map_of (data b))(p := (if count (level_at (data b) p) = 1 then None
        else Some \<lparr>quantity = quantity (level_at (data b) p) - q,
                   count = count (level_at (data b) p) - 1\<rparr>))"
  by (auto simp add: update_level_data_def Let_def AList.update_conv' AList.delete_conv'
      fun_eq_iff)

lemma level_at_data_remove:
  "level_at (data (update_level_data b p q False False)) p' =
     (if p' = p then
        (if count (level_at (data b) p) = 1 then \<lparr>quantity = 0, count = 0\<rparr>
         else \<lparr>quantity = quantity (level_at (data b) p) - q,
               count = count (level_at (data b) p) - 1\<rparr>)
      else level_at (data b) p')"
  by (simp add: level_at_def data_remove)

text \<open>
  C10. The property as stated has the ledger entry at the cancelled order's price
  decremented by one count and by the order's remaining quantity.
  \<open>_update_level_data\<close> deletes the entry when its count reaches zero, whatever
  quantity is left in it. A sell of 5 at 100 is
  filled for 2, cancelled, and the same order, with 3 remaining of its initial 5, is added
  again: the ledger gets its initial quantity, 5 in one order. Cancelling it removes the
  entry, so the quantity at 100 reads 0 and not 5 - 3 = 2.
\<close>

theorem cancel_order_deletes_ledger_entry:
  "add_order init sell1 = Some (Returns ([], book_one_ask)) \<and>
   add_order book_one_ask buy2_101 =
     Some (Returns ([Trade (TradeInfo 2 101 2) (TradeInfo 1 100 2)], book_partly_filled)) \<and>
   map_of (orders book_partly_filled) 1 = Some (sell1\<lparr>remaining_quantity := 3\<rparr>) \<and>
   cancel_order book_partly_filled 1 = Returns book_ledger_101 \<and>
   add_order book_ledger_101 (sell1\<lparr>remaining_quantity := 3\<rparr>) =
     Some (Returns ([], book_readded)) \<and>
   map_of (orders book_readded) 1 = Some (sell1\<lparr>remaining_quantity := 3\<rparr>) \<and>
   map_of (data book_readded) 100 = Some \<lparr>quantity = 5, count = 1\<rparr> \<and>
   cancel_order book_readded 1 = Returns book_ledger_101 \<and>
   map_of (data book_ledger_101) 100 = None \<and>
   quantity (level_at (data book_ledger_101) 100) = 0 \<and>
   quantity (level_at (data book_readded) 100) -
     remaining_quantity (sell1\<lparr>remaining_quantity := 3\<rparr>) = 2"
  by code_simp

text \<open>
  C10, amended. \<open>cancel_order\<close> of a registered identifier, called with the lock free,
  where the registry's queue reference is the queue at the order's price on the order's
  side and holds the order. The call returns (it has no trade list to return) with the
  lock free; the order is the first record with its identifier in that queue,
  \<open>q = xs @ x # ys\<close>; the registry loses exactly that entry; the queue becomes
  \<open>xs @ ys\<close> (its key is dropped when that is empty), every other queue of that side and
  the whole other side are as before; ledger entries at other prices are as before. At the
  order's price the count drops by one; when it reaches zero the entry is removed, and
  otherwise its quantity drops by the order's remaining quantity.
\<close>

theorem cancel_order_frame:
  assumes "\<not> lock b" and "map_of (orders b) oid = Some ord"
    and "map_of (side_map b (side ord)) (price ord) = Some q"
    and "oid \<in> order_id ` set q"
  shows "\<exists>b' xs x ys.
     cancel_order b oid = Returns b' \<and> \<not> lock b' \<and>
     q = xs @ x # ys \<and> order_id x = oid \<and> oid \<notin> order_id ` set xs \<and>
     map_of (orders b') = (map_of (orders b))(oid := None) \<and>
     map_of (side_map b' (side ord)) =
       (map_of (side_map b (side ord)))
         (price ord := (if xs @ ys = [] then None else Some (xs @ ys))) \<and>
     side_map b' (other_side (side ord)) = side_map b (other_side (side ord)) \<and>
     (\<forall>p. p \<noteq> price ord \<longrightarrow> map_of (data b') p = map_of (data b) p) \<and>
     count (level_at (data b') (price ord)) = count (level_at (data b) (price ord)) - 1 \<and>
     (map_of (data b') (price ord) =
        (if count (level_at (data b) (price ord)) = 1 then None
         else Some \<lparr>quantity = quantity (level_at (data b) (price ord)) - remaining_quantity ord,
                    count = count (level_at (data b) (price ord)) - 1\<rparr>)) \<and>
     quantity (level_at (data b') (price ord)) =
       (if count (level_at (data b) (price ord)) = 1 then 0
        else quantity (level_at (data b) (price ord)) - remaining_quantity ord)"
proof -
  from remove_order_split [OF assms(4)] obtain xs x ys where
    s: "q = xs @ x # ys" "order_id x = oid" "oid \<notin> order_id ` set xs"
       "remove_order oid q = Some (xs @ ys)" by blast
  let ?m = "side_map b (side ord)"
  let ?m' = "if xs @ ys = []
             then AList.delete (price ord) (AList.update (price ord) (xs @ ys) ?m)
             else AList.update (price ord) (xs @ ys) ?m"
  let ?b1 = "set_side_map (side ord) ?m'
               (b\<lparr>lock := True, orders := AList.delete oid (orders b)\<rparr>)"
  let ?b' = "(update_level_data ?b1 (price ord) (remaining_quantity ord) False False)
               \<lparr>lock := False\<rparr>"
  have r: "cancel_order b oid = Returns ?b'"
    using cancel_order_registered [OF assms(1,2,3) s(4)] by simp
  have 1: "\<not> lock ?b'" by simp
  have 2: "map_of (orders ?b') = (map_of (orders b))(oid := None)"
    by (simp add: AList.delete_conv')
  have 3: "map_of (side_map ?b' (side ord)) =
       (map_of ?m)(price ord := (if xs @ ys = [] then None else Some (xs @ ys)))"
    by (simp add: side_map_set_side_map AList.delete_conv' AList.update_conv')
  have 4: "side_map ?b' (other_side (side ord)) = side_map b (other_side (side ord))"
    by (simp add: side_map_set_side_map other_side_neq)
  have 5: "\<forall>p. p \<noteq> price ord \<longrightarrow> map_of (data ?b') p = map_of (data b) p"
    by (simp add: data_remove)
  have 6: "count (level_at (data ?b') (price ord)) = count (level_at (data b) (price ord)) - 1"
    by (simp add: level_at_data_remove)
  have 7: "quantity (level_at (data ?b') (price ord)) =
       (if count (level_at (data b) (price ord)) = 1 then 0
        else quantity (level_at (data b) (price ord)) - remaining_quantity ord)"
    by (simp add: level_at_data_remove)
  have 8: "map_of (data ?b') (price ord) =
        (if count (level_at (data b) (price ord)) = 1 then None
         else Some \<lparr>quantity = quantity (level_at (data b) (price ord)) - remaining_quantity ord,
                    count = count (level_at (data b) (price ord)) - 1\<rparr>)"
    by (simp add: data_remove)
  from r 1 s(1,2,3) 2 3 4 5 6 7 8 show ?thesis by blast
qed

text \<open>
  Cancelling order 1 in the book of two resting sells leaves the book of order 2: the
  entry at 100 held one order and is removed. Cancelling order 3 where the entry at 100
  counts three orders leaves the entry with one count and the order's quantity less.
\<close>

theorem cancel_order_frame_witness:
  "\<not> lock book_two_asks \<and> map_of (orders book_two_asks) 1 = Some sell1 \<and>
   map_of (side_map book_two_asks (side sell1)) (price sell1) = Some [sell1] \<and>
   1 \<in> order_id ` set [sell1] \<and>
   cancel_order book_two_asks 1 = Returns book_only_sell2 \<and>
   map_of (orders book_only_sell2) = (map_of (orders book_two_asks))(1 := None) \<and>
   count (level_at (data book_only_sell2) (price sell1)) =
     count (level_at (data book_two_asks) (price sell1)) - 1 \<and>
   map_of (data book_only_sell2) (price sell1) = None \<and>
   \<not> lock book_stale_plus \<and> map_of (orders book_stale_plus) 3 = Some sell3 \<and>
   map_of (side_map book_stale_plus (side sell3)) (price sell3) = Some [sell3] \<and>
   3 \<in> order_id ` set [sell3] \<and>
   cancel_order book_stale_plus 3 = Returns (book_stale_level\<lparr>asks := []\<rparr>) \<and>
   map_of (data (book_stale_level\<lparr>asks := []\<rparr>)) (price sell3) =
     Some \<lparr>quantity = quantity (level_at (data book_stale_plus) (price sell3)) -
                        remaining_quantity sell3,
           count = count (level_at (data book_stale_plus) (price sell3)) - 1\<rparr>"
proof -
  have h1: "\<not> lock book_two_asks" by code_simp
  have h2: "map_of (orders book_two_asks) 1 = Some sell1" by code_simp
  have h3: "map_of (side_map book_two_asks (side sell1)) (price sell1) = Some [sell1]"
    by code_simp
  have h4: "1 \<in> order_id ` set [sell1]" by (simp add: sell1_def new_order_def)
  have e: "cancel_order book_two_asks 1 = Returns book_only_sell2" by code_simp
  have c: "count (level_at (data book_two_asks) (price sell1)) = 1" by code_simp
  from cancel_order_frame [OF h1 h2 h3 h4] e c
  have a: "map_of (orders book_only_sell2) = (map_of (orders book_two_asks))(1 := None) \<and>
     count (level_at (data book_only_sell2) (price sell1)) =
       count (level_at (data book_two_asks) (price sell1)) - 1 \<and>
     map_of (data book_only_sell2) (price sell1) = None"
    by auto
  have k1: "\<not> lock book_stale_plus" by code_simp
  have k2: "map_of (orders book_stale_plus) 3 = Some sell3" by code_simp
  have k3: "map_of (side_map book_stale_plus (side sell3)) (price sell3) = Some [sell3]"
    by code_simp
  have k4: "3 \<in> order_id ` set [sell3]" by (simp add: sell3_def new_order_def)
  have f: "cancel_order book_stale_plus 3 = Returns (book_stale_level\<lparr>asks := []\<rparr>)"
    by code_simp
  have d: "count (level_at (data book_stale_plus) (price sell3)) \<noteq> 1" by code_simp
  from cancel_order_frame [OF k1 k2 k3 k4] f d
  have b: "map_of (data (book_stale_level\<lparr>asks := []\<rparr>)) (price sell3) =
     Some \<lparr>quantity = quantity (level_at (data book_stale_plus) (price sell3)) -
                        remaining_quantity sell3,
           count = count (level_at (data book_stale_plus) (price sell3)) - 1\<rparr>"
    by auto
  from h1 h2 h3 h4 e a k1 k2 k3 k4 f b show ?thesis by blast
qed

section \<open>Trade reports\<close>


























end
